theory Spec2Isabelle
  imports Complex_Main "HOL-Library.AList"
begin

section \<open>Data model\<close>

text \<open>
  Rows of the record store are Python dictionaries decoded from JSON. The values the
  engine reads or writes are modelled by \<open>jval\<close>; Python's \<open>None\<close> is \<open>JNull\<close>.
  Floats occur once (the usage percentage written by the code sync) and are idealised
  as reals.
\<close>

datatype jval = JNull | JBool bool | JInt int | JStr string | JFloat real

text \<open>Python truthiness, as used by \<open>if not x\<close> and \<open>x or y\<close>.\<close>

fun truthy :: "jval \<Rightarrow> bool" where
  "truthy JNull = False"
| "truthy (JBool b) = b"
| "truthy (JInt n) = (n \<noteq> 0)"
| "truthy (JStr s) = (s \<noteq> [])"
| "truthy (JFloat x) = (x \<noteq> 0)"

text \<open>Whether a value is a Python string (so that string methods can be called on it).\<close>

fun is_str :: "jval \<Rightarrow> bool" where
  "is_str (JStr _) = True"
| "is_str _ = False"

text \<open>\<open>a or b\<close> on values.\<close>

definition py_or :: "jval \<Rightarrow> jval \<Rightarrow> jval" where
  "py_or a b = (if truthy a then a else b)"

text \<open>
  The \<open>metadata\<close> attribute map is a dictionary with string keys, kept as an association
  list in insertion order.
\<close>

type_synonym metadata = "(string \<times> jval) list"

text \<open>\<open>d.get(k)\<close> and \<open>d.get(k, default)\<close>, \<open>k in d\<close>, \<open>d[k] = v\<close>, \<open>d.pop(k, None)\<close>,
  and the dictionary display \<open>{**d, k1: v1, ..., kn: vn}\<close>.\<close>

definition dget :: "metadata \<Rightarrow> string \<Rightarrow> jval" where
  "dget d k = (case map_of d k of None \<Rightarrow> JNull | Some v \<Rightarrow> v)"

definition dget_default :: "metadata \<Rightarrow> string \<Rightarrow> jval \<Rightarrow> jval" where
  "dget_default d k dflt = (case map_of d k of None \<Rightarrow> dflt | Some v \<Rightarrow> v)"

definition has_key :: "metadata \<Rightarrow> string \<Rightarrow> bool" where
  "has_key d k = (map_of d k \<noteq> None)"

definition dset :: "string \<Rightarrow> jval \<Rightarrow> metadata \<Rightarrow> metadata" where
  "dset k v d = AList.update k v d"

definition dpop :: "string \<Rightarrow> metadata \<Rightarrow> metadata" where
  "dpop k d = AList.delete k d"

definition dict_merge :: "metadata \<Rightarrow> metadata \<Rightarrow> metadata" where
  "dict_merge d kvs = fold (\<lambda>(k, v). AList.update k v) kvs d"

text \<open>A row of the \<open>codes\<close> table (the columns the engine touches).\<close>

record code_row =
  code :: string
  ctype :: string
  status :: string
  updated_at :: string
  metadata :: metadata

record order_row =
  external_id :: string
  order_status :: string
  order_updated_at :: string
  order_metadata :: metadata

record link_row =
  link_id :: string
  original_url :: string
  short_url :: string
  link_updated_at :: string
  link_metadata :: metadata

record org_row =
  org_id :: string
  org_updated_at :: string
  org_metadata :: metadata

text \<open>
  The world the engine acts on: the four tables of the store, the log of subprocess
  invocations of the automation gateway (operation name and code), the names of the
  standalone log files written, and the number of store writes executed.
\<close>

record world =
  codes :: "code_row list"
  orders :: "order_row list"
  links :: "link_row list"
  organizations :: "org_row list"
  gateway_calls :: "(string \<times> string) list"
  log_files :: "string list"
  store_writes :: nat

section \<open>Store adapter on the codes table\<close>

text \<open>\<open>table("codes").select(...).eq("code", c).execute().data\<close>\<close>

definition select_code :: "string \<Rightarrow> world \<Rightarrow> code_row list" where
  "select_code c w = filter (\<lambda>r. code r = c) (codes w)"

text \<open>\<open>table("codes").update(patch).eq("code", c).execute()\<close>: every row whose code is
  \<open>c\<close> receives the patch.\<close>

definition update_code :: "string \<Rightarrow> (code_row \<Rightarrow> code_row) \<Rightarrow> world \<Rightarrow> world" where
  "update_code c patch w =
     w\<lparr>codes := map (\<lambda>r. if code r = c then patch r else r) (codes w),
       store_writes := Suc (store_writes w)\<rparr>"

text \<open>\<open>table("codes").insert(row).execute()\<close>\<close>

definition insert_code :: "code_row \<Rightarrow> world \<Rightarrow> world" where
  "insert_code r w = w\<lparr>codes := codes w @ [r], store_writes := Suc (store_writes w)\<rparr>"

text \<open>\<open>table("codes").delete().eq("code", c).execute()\<close>\<close>

definition delete_code :: "string \<Rightarrow> world \<Rightarrow> world" where
  "delete_code c w =
     w\<lparr>codes := filter (\<lambda>r. code r \<noteq> c) (codes w), store_writes := Suc (store_writes w)\<rparr>"

text \<open>The four pending-intent statuses.\<close>

definition pending_statuses :: "string list" where
  "pending_statuses = [''creating'', ''deleting'', ''updating'', ''renaming'']"

section \<open>Reconciliation monitor (\<open>fienta_monitor.py\<close>)\<close>

text \<open>One entry of the basic usage scrape. Absent number fields are \<open>None\<close>; an absent
  \<open>discountId\<close> or \<open>editUrl\<close> reads as \<open>JNull\<close> through \<open>.get\<close>.\<close>

record scraped_code =
  sc_code :: string
  ordersUsed :: "int option"
  orderLimit :: "int option"
  ticketsUsed :: "int option"
  ticketLimit :: "int option"
  discountId :: jval
  editUrl :: jval

definition get_int :: "int option \<Rightarrow> int \<Rightarrow> int" where
  "get_int v dflt = (case v of None \<Rightarrow> dflt | Some n \<Rightarrow> n)"

text \<open>\<open>round(x, 1)\<close>, idealised on reals.\<close>

definition py_round1 :: "real \<Rightarrow> real" where
  "py_round1 x = of_int (round (x * 10)) / 10"

text \<open>\<open>_get_existing_metadata\<close>\<close>

definition get_existing_metadata :: "world \<Rightarrow> string \<Rightarrow> metadata" where
  "get_existing_metadata w code_name =
     (case select_code code_name w of [] \<Rightarrow> [] | r # _ \<Rightarrow> metadata r)"

text \<open>The row that \<open>_sync_codes_to_supabase\<close> builds from one scraped entry.\<close>

definition sync_status :: "scraped_code \<Rightarrow> string" where
  "sync_status cd =
     (if get_int (ordersUsed cd) 0 < get_int (orderLimit cd) 1 then ''active'' else ''used'')"

definition sync_metadata :: "string \<Rightarrow> string \<Rightarrow> scraped_code \<Rightarrow> metadata" where
  "sync_metadata now event_id cd =
     [(''orders_used'', JInt (get_int (ordersUsed cd) 0)),
      (''order_limit'', JInt (get_int (orderLimit cd) 0)),
      (''tickets_used'', JInt (get_int (ticketsUsed cd) 0)),
      (''ticket_limit'', JInt (get_int (ticketLimit cd) 0)),
      (''usage_percentage'',
         JFloat (py_round1 (real_of_int (get_int (ordersUsed cd) 0)
                   / real_of_int (max (get_int (orderLimit cd) 1) 1) * 100))),
      (''last_scraped'', JStr now),
      (''fienta_event_id'', JStr event_id),
      (''fienta_discount_id'', discountId cd),
      (''fienta_edit_url'', editUrl cd)]"

text \<open>One iteration of the loop of \<open>_sync_codes_to_supabase\<close>: an existing row is
  updated in place (code, type, status and metadata are overwritten), an unseen code is
  inserted (its \<open>updated_at\<close>, which the source leaves to the store, is the current
  time).\<close>

definition sync_one :: "string \<Rightarrow> string \<Rightarrow> scraped_code \<Rightarrow> world \<Rightarrow> world" where
  "sync_one now event_id cd w =
     (let existing = select_code (sc_code cd) w in
      if existing \<noteq> [] then
        update_code (sc_code cd)
          (\<lambda>r. r\<lparr>code := sc_code cd, ctype := ''discount'', status := sync_status cd,
                 metadata := sync_metadata now event_id cd\<rparr>) w
      else
        insert_code \<lparr>code = sc_code cd, ctype = ''discount'', status = sync_status cd,
                     updated_at = now, metadata = sync_metadata now event_id cd\<rparr> w)"

fun sync_codes_to_supabase ::
  "string \<Rightarrow> string \<Rightarrow> scraped_code list \<Rightarrow> world \<Rightarrow> world \<times> nat" where
  "sync_codes_to_supabase now event_id [] w = (w, 0)"
| "sync_codes_to_supabase now event_id (cd # rest) w =
     (let (w', n) = sync_codes_to_supabase now event_id rest (sync_one now event_id cd w)
      in (w', Suc n))"

text \<open>\<open>_cleanup_deleted_codes\<close>: the rows are selected once, with the filter
  \<open>status = active\<close>, as (code, status) pairs; the loop then walks that snapshot.\<close>

definition select_active :: "world \<Rightarrow> (string \<times> string) list" where
  "select_active w = map (\<lambda>r. (code r, status r)) (filter (\<lambda>r. status r = ''active'') (codes w))"

definition cleanup_metadata :: "string \<Rightarrow> metadata \<Rightarrow> string \<Rightarrow> metadata" where
  "cleanup_metadata now existing_metadata current_status =
     dict_merge existing_metadata
       [(''deleted_at'', JStr now),
        (''deletion_source'', JStr ''monitoring_cleanup''),
        (''deletion_method'', JStr ''monitoring_cleanup''),
        (''deletion_reason'', JStr ''missing_from_fienta''),
        (''deletion_completed_by'', JStr ''fienta_monitor''),
        (''previous_status'', JStr current_status)]"

fun cleanup_loop ::
  "string \<Rightarrow> string list \<Rightarrow> (string \<times> string) list \<Rightarrow> world \<Rightarrow> nat \<Rightarrow> world \<times> nat" where
  "cleanup_loop now fienta_codes [] w deleted_count = (w, deleted_count)"
| "cleanup_loop now fienta_codes ((code_name, current_status) # rest) w deleted_count =
     (if code_name \<notin> set fienta_codes \<and> current_status = ''active'' then
        cleanup_loop now fienta_codes rest
          (update_code code_name
             (\<lambda>r. r\<lparr>status := ''deleted'', updated_at := now,
                    metadata := cleanup_metadata now (get_existing_metadata w code_name)
                                  current_status\<rparr>) w)
          (Suc deleted_count)
      else cleanup_loop now fienta_codes rest w deleted_count)"

definition cleanup_deleted_codes :: "string \<Rightarrow> scraped_code list \<Rightarrow> world \<Rightarrow> world \<times> nat" where
  "cleanup_deleted_codes now current_codes_data w =
     cleanup_loop now (map sc_code current_codes_data) (select_active w) w 0"

text \<open>\<open>_fast_cleanup_deleted_codes\<close>\<close>

definition fast_cleanup_metadata :: "string \<Rightarrow> metadata \<Rightarrow> metadata" where
  "fast_cleanup_metadata now existing_metadata =
     dict_merge existing_metadata
       [(''deleted_at'', JStr now),
        (''deletion_source'', JStr ''fast_monitoring''),
        (''deletion_method'', JStr ''fast_monitoring''),
        (''deletion_reason'', JStr ''missing_from_fienta_fast_check''),
        (''deletion_completed_by'', JStr ''fienta_monitor''),
        (''previous_status'', JStr ''active'')]"

fun fast_cleanup_loop ::
  "string \<Rightarrow> string list \<Rightarrow> (string \<times> string) list \<Rightarrow> world \<Rightarrow> nat \<Rightarrow> world \<times> nat" where
  "fast_cleanup_loop now fienta_codes [] w deleted_count = (w, deleted_count)"
| "fast_cleanup_loop now fienta_codes ((code_name, current_status) # rest) w deleted_count =
     (if code_name \<notin> set fienta_codes then
        fast_cleanup_loop now fienta_codes rest
          (update_code code_name
             (\<lambda>r. r\<lparr>status := ''deleted'', updated_at := now,
                    metadata := fast_cleanup_metadata now (get_existing_metadata w code_name)\<rparr>) w)
          (Suc deleted_count)
      else fast_cleanup_loop now fienta_codes rest w deleted_count)"

definition fast_cleanup_deleted_codes :: "string \<Rightarrow> string list \<Rightarrow> world \<Rightarrow> world \<times> nat" where
  "fast_cleanup_deleted_codes now fienta_codes w =
     fast_cleanup_loop now fienta_codes (select_active w) w 0"

text \<open>\<open>_update_codes_metadata\<close>: the fast check's identifier refresh. Only the metadata
  and \<open>updated_at\<close> columns are written.\<close>

definition update_one_metadata :: "string \<Rightarrow> string \<times> metadata \<Rightarrow> world \<Rightarrow> world \<times> bool" where
  "update_one_metadata now entry w =
     (let (c, code_metadata) = entry in
      case select_code c w of
        [] \<Rightarrow> (w, False)
      | r # _ \<Rightarrow>
          (let existing_metadata = metadata r;
               upd1 = has_key code_metadata ''discountId''
                        \<and> \<not> truthy (dget existing_metadata ''fienta_discount_id'');
               m1 = (if upd1 then dset ''fienta_discount_id'' (dget code_metadata ''discountId'')
                                   existing_metadata
                     else existing_metadata);
               upd2 = has_key code_metadata ''editUrl''
                        \<and> \<not> truthy (dget existing_metadata ''fienta_edit_url'');
               m2 = (if upd2 then dset ''fienta_edit_url'' (dget code_metadata ''editUrl'') m1
                     else m1);
               needs_update = (upd1 \<or> upd2)
           in if needs_update then
                (update_code c
                   (\<lambda>r. r\<lparr>metadata := dset ''metadata_source'' (JStr ''fast_monitoring'')
                                          (dset ''metadata_updated_at'' (JStr now) m2),
                          updated_at := now\<rparr>) w, True)
              else (w, False)))"

fun update_codes_metadata :: "string \<Rightarrow> (string \<times> metadata) list \<Rightarrow> world \<Rightarrow> world \<times> nat" where
  "update_codes_metadata now [] w = (w, 0)"
| "update_codes_metadata now (entry # rest) w =
     (let (w1, updated) = update_one_metadata now entry w;
          (w2, n) = update_codes_metadata now rest w1
      in (w2, if updated then Suc n else n))"

section \<open>Action processor (\<open>action_processor.py\<close>)\<close>

text \<open>
  What the engine cannot decide by itself is supplied by the environment: the clock, the
  exit status of the Playwright deletion script for a code (a timeout or any exception in
  the subprocess call counts as failure, as in the source), the parsed output of the
  one-off \<open>scrape-code-details\<close> run (\<open>None\<close> when the run exits non-zero, writes no
  file, or writes a file that does not parse), and whether each of the four category
  queries raises. Row-level reads and writes of the store are taken to succeed, and the
  metadata column of a row is a dictionary (never null). The rate-limiting sleeps and the
  processor's own \<open>last_check\<close> timestamp do not touch the store and are left out; all
  timestamps written during one call are the one clock reading \<open>now\<close>.
\<close>

record scrape_item =
  item_code :: string
  item_discountId :: jval
  item_editUrl :: jval

record env =
  now :: string
  log_ts :: string
  delete_script_ok :: "string \<Rightarrow> bool"
  scrape_code_details :: "string \<Rightarrow> scrape_item list option"
  codes_query_fails :: bool
  orders_query_fails :: bool
  links_query_fails :: bool
  organizations_query_fails :: bool

text \<open>A call either returns a value or raises; in both cases the effects it had on the
  world so far persist.\<close>

datatype 'a outcome = Returned 'a world | Raised string world

text \<open>A metadata value written into a text column (\<open>status\<close>, \<open>code\<close>). The request layer
  only stages JSON strings for these; any other JSON value is modelled as the empty
  text.\<close>

fun as_text :: "jval \<Rightarrow> string" where
  "as_text (JStr s) = s"
| "as_text _ = []"

text \<open>The parameters of a gateway operation that its dispatcher reads; the remaining
  entries of the source's \<open>params\<close> dictionary are only logged.\<close>

record op_params =
  p_code :: string
  p_fienta_discount_id :: jval
  p_fienta_edit_url :: jval

definition safe_code :: "string \<Rightarrow> string" where
  "safe_code c = map (\<lambda>x. if x = CHR ''/'' then CHR ''_'' else x) c"

definition delete_log_name :: "env \<Rightarrow> string \<Rightarrow> string" where
  "delete_log_name e c = ''fienta_delete_'' @ safe_code c @ ''_'' @ log_ts e @ ''.log''"

text \<open>\<open>_delete_code_in_fienta\<close>: without a discount id it fails before any subprocess is
  started, and so it does when a recorded edit url is not a string (\<open>startswith\<close> raises
  and the exception is caught); otherwise the generated script is run once, its output is
  written to a log file, and the exit status decides.\<close>

definition delete_code_in_fienta :: "env \<Rightarrow> op_params \<Rightarrow> world \<Rightarrow> bool \<times> world" where
  "delete_code_in_fienta e params w =
     (if \<not> truthy (p_fienta_discount_id params) then (False, w)
      else if truthy (p_fienta_edit_url params) \<and> \<not> is_str (p_fienta_edit_url params)
        then (False, w)
      else (delete_script_ok e (p_code params),
            w\<lparr>gateway_calls := gateway_calls w @ [(''delete-code'', p_code params)],
              log_files := log_files w @ [delete_log_name e (p_code params)]\<rparr>))"

text \<open>\<open>_run_fienta_operation\<close>\<close>

definition run_fienta_operation :: "env \<Rightarrow> string \<Rightarrow> op_params \<Rightarrow> world \<Rightarrow> bool \<times> world" where
  "run_fienta_operation e operation params w =
     (if operation = ''delete-code'' then delete_code_in_fienta e params w
      else if operation \<in> set [''create-code'', ''update-code'', ''rename-code''] then (True, w)
      else (False, w))"

text \<open>\<open>_mark_action_failed\<close>\<close>

definition mark_action_failed :: "env \<Rightarrow> string \<Rightarrow> string \<Rightarrow> string \<Rightarrow> world \<Rightarrow> world" where
  "mark_action_failed e c error previous_status w =
     (let existing_metadata = (case select_code c w of [] \<Rightarrow> [] | r # _ \<Rightarrow> metadata r);
          updated_metadata = dict_merge existing_metadata
            [(''action_failed'', JBool True),
             (''action_error'', JStr error),
             (''failed_at'', JStr (now e))]
      in update_code c
           (\<lambda>r. r\<lparr>status := previous_status, updated_at := now e,
                  metadata := updated_metadata\<rparr>) w)"

text \<open>\<open>_handle_code_creation\<close>\<close>

definition creation_params :: "string \<Rightarrow> metadata \<Rightarrow> metadata" where
  "creation_params c md =
     [(''discount_percent'', dget_default md ''discount_percent'' (JInt 10)),
      (''discount_amount'', dget md ''discount_amount''),
      (''max_uses'', dget_default md ''max_uses'' (JInt 1)),
      (''expires_at'', dget md ''expires_at''),
      (''description'', dget_default md ''description'' (JStr (''Auto-created code '' @ c)))]"

definition handle_code_creation :: "env \<Rightarrow> code_row \<Rightarrow> world \<Rightarrow> unit outcome" where
  "handle_code_creation e code_record w =
     (let c = code code_record;
          md = metadata code_record;
          (success, w1) = run_fienta_operation e ''create-code''
             \<lparr>p_code = c, p_fienta_discount_id = JNull, p_fienta_edit_url = JNull\<rparr> w
      in if success then
           Returned ()
             (update_code c
                (\<lambda>r. r\<lparr>status := ''active'', updated_at := now e,
                       metadata := dict_merge md
                         ([(''created_in_fienta_at'', JStr (now e)),
                           (''creation_method'', JStr ''api_request'')]
                          @ filter (\<lambda>(k, v). v \<noteq> JNull) (creation_params c md))\<rparr>) w1)
         else Raised ''Failed to create code in Fienta'' w1)"

text \<open>\<open>_resolve_fienta_code_identifiers\<close>: the result is the pair (discount id, edit
  url), or \<open>None\<close>.\<close>

definition resolve_fienta_code_identifiers ::
  "env \<Rightarrow> string \<Rightarrow> world \<Rightarrow> (jval \<times> jval) option \<times> world" where
  "resolve_fienta_code_identifiers e c w =
     (let db = (case select_code c w of
                  [] \<Rightarrow> None
                | r # _ \<Rightarrow>
                    (let did = dget (metadata r) ''fienta_discount_id'';
                         eurl = dget (metadata r) ''fienta_edit_url''
                     in if truthy did \<and> truthy eurl then Some (did, eurl) else None))
      in case db of
           Some ids \<Rightarrow> (Some ids, w)
         | None \<Rightarrow>
             (let w1 = w\<lparr>gateway_calls := gateway_calls w @ [(''scrape-code-details'', c)]\<rparr> in
              case scrape_code_details e c of
                None \<Rightarrow> (None, w1)
              | Some items \<Rightarrow>
                  (case filter (\<lambda>d. item_code d = c) items of
                     [] \<Rightarrow> (None, w1)
                   | match # _ \<Rightarrow>
                       (let did = item_discountId match; eurl = item_editUrl match in
                        if truthy did \<or> truthy eurl then
                          (Some (did, eurl),
                           update_code c
                             (\<lambda>r. r\<lparr>metadata :=
                                      dict_merge (case select_code c w1 of [] \<Rightarrow> []
                                                  | r0 # _ \<Rightarrow> metadata r0)
                                        [(''fienta_discount_id'', did),
                                         (''fienta_edit_url'', eurl)],
                                    updated_at := now e\<rparr>) w1)
                        else (None, w1)))))"

text \<open>\<open>_handle_code_deletion\<close>\<close>

definition deletion_completion_metadata :: "env \<Rightarrow> metadata \<Rightarrow> metadata" where
  "deletion_completion_metadata e md =
     dict_merge md
       [(''deleted_in_fienta_at'', JStr (now e)),
        (''deletion_completed_by'', JStr ''action_processor''),
        (''deletion_source'', dget_default md ''deletion_source'' (JStr ''unknown'')),
        (''deletion_method'', dget_default md ''deletion_method'' (JStr ''unknown'')),
        (''coordination_completed'', JStr (now e))]"

definition resolve_for_deletion ::
  "env \<Rightarrow> code_row \<Rightarrow> world \<Rightarrow> jval \<times> jval \<times> world" where
  "resolve_for_deletion e code_record w =
     (let c = code code_record;
          md = metadata code_record;
          fienta_discount_id = dget md ''fienta_discount_id'';
          fienta_edit_url = dget md ''fienta_edit_url''
      in if \<not> truthy fienta_discount_id \<or> \<not> truthy fienta_edit_url then
           (case resolve_fienta_code_identifiers e c w of
              (Some (did, eurl), w1) \<Rightarrow>
                (let id' = py_or fienta_discount_id did;
                     url' = py_or fienta_edit_url eurl;
                     m1 = (if truthy id' then dset ''fienta_discount_id'' id' md else md);
                     m2 = (if truthy url' then dset ''fienta_edit_url'' url' m1 else m1)
                 in (id', url',
                     update_code c (\<lambda>r. r\<lparr>metadata := m2, updated_at := now e\<rparr>) w1))
            | (None, w1) \<Rightarrow> (fienta_discount_id, fienta_edit_url, w1))
         else (fienta_discount_id, fienta_edit_url, w))"

definition handle_code_deletion :: "env \<Rightarrow> code_row \<Rightarrow> world \<Rightarrow> unit outcome" where
  "handle_code_deletion e code_record w =
     (let c = code code_record;
          md = metadata code_record;
          raced = (case select_code c w of [] \<Rightarrow> False | r # _ \<Rightarrow> status r \<noteq> ''deleting'')
      in if raced then Returned () w
         else
           (let (fienta_discount_id, fienta_edit_url, w1) = resolve_for_deletion e code_record w
            in if \<not> truthy fienta_discount_id then
                 (let previous_status =
                        dget_default md ''previous_status'' (JStr (status code_record));
                      w2 = mark_action_failed e c
                             ''Missing fienta_discount_id; cannot delete in Fienta''
                             (as_text previous_status) w1
                  in Returned () (w2\<lparr>log_files := log_files w2 @ [delete_log_name e c]\<rparr>))
               else
                 (let (success, w2) = run_fienta_operation e ''delete-code''
                        \<lparr>p_code = c, p_fienta_discount_id = fienta_discount_id,
                         p_fienta_edit_url = fienta_edit_url\<rparr> w1
                  in if success then
                       Returned ()
                         (update_code c
                            (\<lambda>r. r\<lparr>status := ''deleted'', updated_at := now e,
                                   metadata := deletion_completion_metadata e md\<rparr>) w2)
                     else
                       Raised ''Failed to delete code from Fienta''
                         (mark_action_failed e c ''Playwright deletion did not complete''
                            ''active'' w2))))"

text \<open>\<open>_handle_code_update\<close>\<close>

definition update_fields :: "string list" where
  "update_fields = [''discount_percent'', ''discount_amount'', ''max_uses'', ''expires_at'',
                    ''description'']"

definition update_params :: "metadata \<Rightarrow> metadata" where
  "update_params md =
     map (\<lambda>field. (field, dget md (''new_'' @ field)))
       (filter (\<lambda>field. has_key md (''new_'' @ field)) update_fields)"

definition apply_update_params :: "metadata \<Rightarrow> metadata \<Rightarrow> metadata" where
  "apply_update_params params md =
     fold (\<lambda>(field, v) m. dpop (''new_'' @ field) (dset field v m)) params md"

definition handle_code_update :: "env \<Rightarrow> code_row \<Rightarrow> world \<Rightarrow> unit outcome" where
  "handle_code_update e code_record w =
     (let c = code code_record;
          md = metadata code_record;
          params = update_params md
      in if params = [] then Returned () w
         else
           (let (success, w1) = run_fienta_operation e ''update-code''
                  \<lparr>p_code = c, p_fienta_discount_id = JNull, p_fienta_edit_url = JNull\<rparr> w
            in if success then
                 Returned ()
                   (update_code c
                      (\<lambda>r. r\<lparr>status := ''active'', updated_at := now e,
                             metadata := dset ''update_method'' (JStr ''api_request'')
                               (dset ''updated_in_fienta_at'' (JStr (now e))
                                  (apply_update_params params md))\<rparr>) w1)
               else Raised ''Failed to update code in Fienta'' w1))"

text \<open>\<open>_handle_code_rename\<close>\<close>

definition handle_code_rename :: "env \<Rightarrow> code_row \<Rightarrow> world \<Rightarrow> unit outcome" where
  "handle_code_rename e code_record w =
     (let old_code = code code_record;
          md = metadata code_record;
          new_code = dget md ''new_code''
      in if \<not> truthy new_code then
           Raised ''No new_code specified in metadata for rename operation'' w
         else
           (let (success, w1) = run_fienta_operation e ''rename-code''
                  \<lparr>p_code = old_code, p_fienta_discount_id = JNull, p_fienta_edit_url = JNull\<rparr> w
            in if success then
                 (let new_record = code_record
                        \<lparr>code := as_text new_code, status := ''active'', updated_at := now e,
                         metadata := dict_merge md
                           [(''renamed_from'', JStr old_code),
                            (''renamed_in_fienta_at'', JStr (now e)),
                            (''rename_method'', JStr ''api_request'')]\<rparr>
                  in Returned () (insert_code new_record (delete_code old_code w1)))
               else Raised ''Failed to rename code in Fienta'' w1))"

text \<open>\<open>_process_single_code_action\<close>: dispatch on the status, falling back to the
  \<open>action\<close> entry of the metadata; an exception of the handler marks the row failed with
  the status the row was picked up with, and is raised again.\<close>

definition process_single_code_action :: "env \<Rightarrow> code_row \<Rightarrow> world \<Rightarrow> unit outcome" where
  "process_single_code_action e code_record w =
     (let c = code code_record;
          st = status code_record;
          action = dget (metadata code_record) ''action'';
          handled =
            (if st = ''creating'' \<or> action = JStr ''create'' then
               handle_code_creation e code_record w
             else if st = ''deleting'' \<or> action = JStr ''delete'' then
               handle_code_deletion e code_record w
             else if st = ''updating'' \<or> action = JStr ''update'' then
               handle_code_update e code_record w
             else if st = ''renaming'' \<or> action = JStr ''rename'' then
               handle_code_rename e code_record w
             else Returned () w)
      in case handled of
           Returned u w1 \<Rightarrow> Returned u w1
         | Raised err w1 \<Rightarrow>
             Raised err (mark_action_failed e c err (status code_record) w1))"

text \<open>\<open>_process_code_actions\<close>: the pending rows are queried once (this query is not
  guarded); each row is handled in turn, and an exception of a row is logged and the loop
  goes on.\<close>

fun code_actions_loop :: "env \<Rightarrow> code_row list \<Rightarrow> world \<Rightarrow> nat \<Rightarrow> world \<times> nat" where
  "code_actions_loop e [] w processed = (w, processed)"
| "code_actions_loop e (code_record # rest) w processed =
     (case process_single_code_action e code_record w of
        Returned _ w1 \<Rightarrow> code_actions_loop e rest w1 (Suc processed)
      | Raised _ w1 \<Rightarrow> code_actions_loop e rest w1 processed)"
















section \<open>Observations used in the statements\<close>


text \<open>The world a call leaves behind, and whether it returned.\<close>

fun world_of :: "'a outcome \<Rightarrow> world" where
  "world_of (Returned _ w) = w"
| "world_of (Raised _ w) = w"

fun returned :: "'a outcome \<Rightarrow> bool" where
  "returned (Returned _ _) = True"
| "returned (Raised _ _) = False"

definition delete_calls :: "world \<Rightarrow> (string \<times> string) list" where
  "delete_calls w = filter (\<lambda>c. fst c = ''delete-code'') (gateway_calls w)"


definition is_pending :: "code_row \<Rightarrow> bool" where
  "is_pending r = (status r \<in> set pending_statuses)"



section \<open>Example states\<close>

definition ex_env :: env where
  "ex_env = \<lparr>now = ''t1'', log_ts = ''ts'', delete_script_ok = (\<lambda>c. False),
             scrape_code_details = (\<lambda>c. None), codes_query_fails = False,
             orders_query_fails = False, links_query_fails = False,
             organizations_query_fails = False\<rparr>"

definition mk_world :: "code_row list \<Rightarrow> world" where
  "mk_world rows = \<lparr>codes = rows, orders = [], links = [], organizations = [],
                     gateway_calls = [], log_files = [], store_writes = 0\<rparr>"

definition mk_code :: "string \<Rightarrow> string \<Rightarrow> metadata \<Rightarrow> code_row" where
  "mk_code c st md = \<lparr>code = c, ctype = ''discount'', status = st, updated_at = ''t0'',
                       metadata = md\<rparr>"

definition mk_scraped :: "string \<Rightarrow> int \<Rightarrow> int \<Rightarrow> scraped_code" where
  "mk_scraped c used limit = \<lparr>sc_code = c, ordersUsed = Some used, orderLimit = Some limit,
      ticketsUsed = None, ticketLimit = None, discountId = JNull, editUrl = JNull\<rparr>"

text \<open>Active codes A and C, a code B whose deletion is in flight, a deleted code D.\<close>

definition ex_store :: world where
  "ex_store = mk_world
     [mk_code ''A'' ''active'' [(''max_uses'', JInt 5)],
      mk_code ''B'' ''deleting'' [(''action'', JStr ''delete'')],
      mk_code ''C'' ''active'' [],
      mk_code ''D'' ''deleted'' [(''deletion_reason'', JStr ''missing_from_fienta'')]]"

definition fail_delete_row :: code_row where
  "fail_delete_row = mk_code ''X'' ''deleting''
     [(''action'', JStr ''delete''), (''previous_status'', JStr ''used''),
      (''fienta_discount_id'', JStr ''77''), (''fienta_edit_url'', JStr ''/discounts/77/edit'')]"

definition fail_delete_store :: world where
  "fail_delete_store = mk_world [fail_delete_row]"

definition stale_delete_store :: world where
  "stale_delete_store = mk_world [mk_code ''X'' ''active'' [(''action'', JStr ''delete'')]]"

definition creating_row :: code_row where
  "creating_row = mk_code ''SPRING10'' ''creating''
     [(''action'', JStr ''create''), (''discount_percent'', JInt 20)]"

definition updating_row :: code_row where
  "updating_row = mk_code ''U1'' ''updating''
     [(''action'', JStr ''update''), (''new_max_uses'', JInt 9)]"

definition renaming_row :: code_row where
  "renaming_row = mk_code ''OLD'' ''renaming''
     [(''action'', JStr ''rename''), (''new_code'', JStr ''NEW''),
      (''previous_status'', JStr ''active'')]"

definition intents_store :: world where
  "intents_store = mk_world [creating_row, updating_row, renaming_row]"

definition unresolved_row :: code_row where
  "unresolved_row = mk_code ''X2'' ''deleting''
     [(''action'', JStr ''delete''), (''previous_status'', JStr ''active'')]"

definition unresolved_store :: world where
  "unresolved_store = mk_world [mk_code ''A'' ''active'' [], unresolved_row]"











section \<open>Store and dictionary lemmas\<close>

lemmas ex_defs = ex_store_def mk_world_def mk_code_def mk_scraped_def ex_env_def

lemma update_code_length: "length (codes (update_code c p w)) = length (codes w)"
  by (simp add: update_code_def)

lemma update_code_nth:
  "i < length (codes w) \<Longrightarrow>
   codes (update_code c p w) ! i = (if code (codes w ! i) = c then p (codes w ! i) else codes w ! i)"
  by (simp add: update_code_def)


lemma map_of_dict_merge_Nil: "map_of (dict_merge d []) = map_of d"
  by (simp add: dict_merge_def)

lemma map_of_dict_merge_Cons:
  "map_of (dict_merge d ((k, v) # kvs)) = map_of (dict_merge (AList.update k v d) kvs)"
  by (simp add: dict_merge_def)

lemma distinct_code_nth:
  assumes "distinct (map code rows)" "i < length rows" "r \<in> set rows"
    "code r = code (rows ! i)"
  shows "r = rows ! i"
proof -
  from assms(3) obtain j where j: "j < length rows" "rows ! j = r"
    by (auto simp: in_set_conv_nth)
  from nth_eq_iff_index_eq[OF assms(1), of j i] j assms(2,4) have "j = i" by simp
  with j show ?thesis by simp
qed

lemma filter_code_distinct:
  assumes "distinct (map code rows)" "i < length rows"
  shows "filter (\<lambda>r. code r = code (rows ! i)) rows = [rows ! i]"
  using assms
proof (induction rows arbitrary: i)
  case Nil
  then show ?case by simp
next
  case (Cons a rows)
  show ?case
  proof (cases i)
    case 0
    from Cons.prems(1) have "code a \<notin> code ` set rows" by simp
    then have "\<forall>x\<in>set rows. code x \<noteq> code a" by (metis image_eqI)
    then have "filter (\<lambda>r. code r = code a) rows = []"
      by (simp add: filter_empty_conv)
    with 0 show ?thesis by simp
  next
    case (Suc j)
    with Cons.prems have j: "j < length rows" "distinct (map code rows)" by auto
    from Cons.prems(1) have "code a \<notin> code ` set rows" by simp
    with j(1) have "code a \<noteq> code (rows ! j)" by (metis image_eqI nth_mem)
    with Cons.IH[OF j(2) j(1)] Suc show ?thesis by simp
  qed
qed

lemma select_code_distinct:
  "distinct (map code (codes w)) \<Longrightarrow> i < length (codes w) \<Longrightarrow>
   select_code (code (codes w ! i)) w = [codes w ! i]"
  by (simp add: select_code_def filter_code_distinct)

section \<open>Cleanup passes\<close>

lemma cleanup_loop_length:
  "length (codes (fst (cleanup_loop t fc snap w n))) = length (codes w)"
  by (induction t fc snap w n rule: cleanup_loop.induct) (simp_all add: update_code_length)

lemma cleanup_loop_other:
  "i < length (codes w) \<Longrightarrow> code (codes w ! i) \<notin> fst ` set snap \<Longrightarrow>
   codes (fst (cleanup_loop t fc snap w n)) ! i = codes w ! i"
proof (induction t fc snap w n rule: cleanup_loop.induct)
  case (1 t fc w n)
  then show ?case by simp
next
  case (2 t fc code_name current_status rest w n)
  then show ?case
    by (auto simp: update_code_nth update_code_length)
qed

lemma fast_cleanup_loop_length:
  "length (codes (fst (fast_cleanup_loop t fc snap w n))) = length (codes w)"
  by (induction t fc snap w n rule: fast_cleanup_loop.induct) (simp_all add: update_code_length)

lemma fast_cleanup_loop_other:
  "i < length (codes w) \<Longrightarrow> code (codes w ! i) \<notin> fst ` set snap \<Longrightarrow>
   codes (fst (fast_cleanup_loop t fc snap w n)) ! i = codes w ! i"
proof (induction t fc snap w n rule: fast_cleanup_loop.induct)
  case (1 t fc w n)
  then show ?case by simp
next
  case (2 t fc code_name current_status rest w n)
  then show ?case
    by (auto simp: update_code_nth update_code_length)
qed

lemma pending_not_active: "s \<in> set pending_statuses \<Longrightarrow> s \<noteq> ''active''"
  by (auto simp: pending_statuses_def)

lemma select_active_codes:
  "fst ` set (select_active w) = {code r | r. r \<in> set (codes w) \<and> status r = ''active''}"
  by (auto simp: select_active_def image_iff)

lemma pending_not_in_snapshot:
  assumes "distinct (map code (codes w))" "i < length (codes w)"
    "status (codes w ! i) \<in> set pending_statuses"
  shows "code (codes w ! i) \<notin> fst ` set (select_active w)"
proof
  assume "code (codes w ! i) \<in> fst ` set (select_active w)"
  then obtain r where r: "r \<in> set (codes w)" "status r = ''active''" "code r = code (codes w ! i)"
    by (auto simp: select_active_codes)
  with assms have "r = codes w ! i" by (auto intro: distinct_code_nth)
  with r assms(3) show False by (auto dest: pending_not_active)
qed

text \<open>
  C1 (partition invariant). With the code value as the natural key of the table (no two
  rows share a code), a row whose status is creating, updating, deleting or renaming is
  exactly the same row after the full-cycle cleanup and after the fast-check cleanup: both
  passes walk only the rows selected with status active.
\<close>

theorem cleanup_leaves_pending_rows:
  assumes "distinct (map code (codes w))" and "i < length (codes w)"
    and "status (codes w ! i) \<in> set pending_statuses"
  shows "codes (fst (cleanup_deleted_codes t current_codes_data w)) ! i = codes w ! i
       \<and> codes (fst (fast_cleanup_deleted_codes t fienta_codes w)) ! i = codes w ! i"
  using assms pending_not_in_snapshot[OF assms]
  by (simp add: cleanup_deleted_codes_def fast_cleanup_deleted_codes_def
      cleanup_loop_other fast_cleanup_loop_other)

theorem cleanup_leaves_pending_rows_witness:
  "distinct (map code (codes ex_store)) \<and> 1 < length (codes ex_store)
   \<and> status (codes ex_store ! 1) \<in> set pending_statuses
   \<and> codes (fst (cleanup_deleted_codes ''t1'' [mk_scraped ''C'' 0 1] ex_store)) ! 1
       = codes ex_store ! 1
   \<and> codes (fst (fast_cleanup_deleted_codes ''t1'' [''C''] ex_store)) ! 1 = codes ex_store ! 1
   \<and> status (codes (fst (cleanup_deleted_codes ''t1'' [mk_scraped ''C'' 0 1] ex_store)) ! 0)
       = ''deleted''"
proof -
  have h1: "distinct (map code (codes ex_store))" by (simp add: ex_defs)
  have h2: "1 < length (codes ex_store)" by (simp add: ex_defs)
  have h3: "status (codes ex_store ! 1) \<in> set pending_statuses"
    by (simp add: ex_defs pending_statuses_def)
  have h4: "status (codes (fst (cleanup_deleted_codes ''t1'' [mk_scraped ''C'' 0 1] ex_store)) ! 0)
       = ''deleted''"
    by (simp add: ex_defs cleanup_deleted_codes_def select_active_def update_code_def)
  show ?thesis
    using h1 h2 h3 h4 cleanup_leaves_pending_rows[OF h1 h2 h3] by simp
qed

section \<open>Cleanup stamping\<close>


lemma select_active_status: "(c, s) \<in> set (select_active w) \<Longrightarrow> s = ''active''"
  by (auto simp: select_active_def)














section \<open>Deleted rows and the write paths of the monitor\<close>

lemma cleanup_loop_keeps_deleted:
  "i < length (codes w) \<Longrightarrow> status (codes w ! i) = ''deleted'' \<Longrightarrow>
   status (codes (fst (cleanup_loop t fc snap w n)) ! i) = ''deleted''"
proof (induction t fc snap w n rule: cleanup_loop.induct)
  case (1 t fc w n)
  then show ?case by simp
next
  case (2 t fc code_name current_status rest w n)
  then show ?case
    by (simp add: update_code_nth update_code_length)
qed

lemma fast_cleanup_loop_keeps_deleted:
  "i < length (codes w) \<Longrightarrow> status (codes w ! i) = ''deleted'' \<Longrightarrow>
   status (codes (fst (fast_cleanup_loop t fc snap w n)) ! i) = ''deleted''"
proof (induction t fc snap w n rule: fast_cleanup_loop.induct)
  case (1 t fc w n)
  then show ?case by simp
next
  case (2 t fc code_name current_status rest w n)
  then show ?case
    by (simp add: update_code_nth update_code_length)
qed

lemma update_one_metadata_status:
  "map status (codes (fst (update_one_metadata t entry w))) = map status (codes w)"
  by (cases entry)
     (simp add: update_one_metadata_def update_code_def Let_def comp_def split: list.splits)

lemma update_codes_metadata_status:
  "map status (codes (fst (update_codes_metadata t entries w))) = map status (codes w)"
proof (induction entries arbitrary: w)
  case Nil
  then show ?case by simp
next
  case (Cons entry entries)
  obtain w1 u where s1: "update_one_metadata t entry w = (w1, u)" by force
  obtain w2 n where s2: "update_codes_metadata t entries w1 = (w2, n)" by force
  from Cons.IH[of w1] s2 have "map status (codes w2) = map status (codes w1)" by simp
  moreover from update_one_metadata_status[of t entry w] s1
  have "map status (codes w1) = map status (codes w)" by simp
  ultimately show ?case by (simp add: s1 s2)
qed

lemma sync_one_length: "length (codes w) \<le> length (codes (sync_one t ev cd w))"
  by (simp add: sync_one_def update_code_def insert_code_def Let_def)

lemma sync_one_other:
  "i < length (codes w) \<Longrightarrow> code (codes w ! i) \<noteq> sc_code cd \<Longrightarrow>
   codes (sync_one t ev cd w) ! i = codes w ! i"
  by (simp add: sync_one_def update_code_def insert_code_def Let_def nth_append)

lemma sync_status_cases: "sync_status cd = ''active'' \<or> sync_status cd = ''used''"
  by (simp add: sync_status_def)

lemma sync_one_same:
  assumes "i < length (codes w)" "code (codes w ! i) = sc_code cd"
  shows "code (codes (sync_one t ev cd w) ! i) = sc_code cd
       \<and> status (codes (sync_one t ev cd w) ! i) = sync_status cd"
proof -
  from assms have "codes w ! i \<in> set (select_code (sc_code cd) w)"
    by (simp add: select_code_def)
  then have "select_code (sc_code cd) w \<noteq> []" by auto
  with assms show ?thesis
    by (simp add: sync_one_def update_code_def Let_def)
qed

lemma fst_sync_Cons:
  "fst (sync_codes_to_supabase t ev (cd # rest) w)
     = fst (sync_codes_to_supabase t ev rest (sync_one t ev cd w))"
  by (simp split: prod.splits)

lemma sync_other:
  "i < length (codes w) \<Longrightarrow> code (codes w ! i) \<notin> sc_code ` set data \<Longrightarrow>
   codes (fst (sync_codes_to_supabase t ev data w)) ! i = codes w ! i"
proof (induction data arbitrary: w)
  case Nil
  then show ?case by simp
next
  case (Cons cd data)
  from Cons.prems have ne: "code (codes w ! i) \<noteq> sc_code cd" by auto
  have same: "codes (sync_one t ev cd w) ! i = codes w ! i"
    using Cons.prems(1) ne by (rule sync_one_other)
  have len: "i < length (codes (sync_one t ev cd w))"
    using Cons.prems(1) sync_one_length[of w t ev cd] by simp
  from Cons.prems(2) same have "code (codes (sync_one t ev cd w) ! i) \<notin> sc_code ` set data"
    by simp
  from Cons.IH[OF len this] same show ?case by (simp only: fst_sync_Cons)
qed

lemma sync_keeps_upserted:
  "i < length (codes w) \<Longrightarrow> status (codes w ! i) \<in> {''active'', ''used''} \<Longrightarrow>
   status (codes (fst (sync_codes_to_supabase t ev data w)) ! i) \<in> {''active'', ''used''}"
proof (induction data arbitrary: w)
  case Nil
  then show ?case by simp
next
  case (Cons cd data)
  have len: "i < length (codes (sync_one t ev cd w))"
    using Cons.prems(1) sync_one_length[of w t ev cd] by simp
  have "status (codes (sync_one t ev cd w) ! i) \<in> {''active'', ''used''}"
  proof (cases "code (codes w ! i) = sc_code cd")
    case True
    from sync_one_same[OF Cons.prems(1) True, of t ev] sync_status_cases[of cd]
    show ?thesis by auto
  next
    case False
    from sync_one_other[OF Cons.prems(1) False, of t ev] Cons.prems(2) show ?thesis by simp
  qed
  from Cons.IH[OF len this] show ?case by (simp only: fst_sync_Cons)
qed

lemma sync_overwrites_present:
  "i < length (codes w) \<Longrightarrow> code (codes w ! i) \<in> sc_code ` set data \<Longrightarrow>
   status (codes (fst (sync_codes_to_supabase t ev data w)) ! i) \<in> {''active'', ''used''}"
proof (induction data arbitrary: w)
  case Nil
  then show ?case by simp
next
  case (Cons cd data)
  have len: "i < length (codes (sync_one t ev cd w))"
    using Cons.prems(1) sync_one_length[of w t ev cd] by simp
  show ?case
  proof (cases "code (codes w ! i) = sc_code cd")
    case True
    from sync_one_same[OF Cons.prems(1) True, of t ev] sync_status_cases[of cd]
    have "status (codes (sync_one t ev cd w) ! i) \<in> {''active'', ''used''}" by auto
    from sync_keeps_upserted[OF len this] show ?thesis by (simp only: fst_sync_Cons)
  next
    case False
    have same: "codes (sync_one t ev cd w) ! i = codes w ! i"
      using Cons.prems(1) False by (rule sync_one_other)
    from False Cons.prems(2) same
    have "code (codes (sync_one t ev cd w) ! i) \<in> sc_code ` set data" by auto
    from Cons.IH[OF len this] show ?thesis by (simp only: fst_sync_Cons)
  qed
qed

text \<open>
  C2, as amended (deleted rows and the monitor's write paths). A row with status deleted
  keeps that status through the full-cycle cleanup, the fast-check cleanup and the
  fast check's metadata update. The code sync leaves the row untouched when its code is
  absent from the scrape; when its code appears in the scrape, the upsert overwrites the
  status with active or used.
\<close>

theorem deleted_rows_and_monitor_writes:
  assumes "i < length (codes w)" and "status (codes w ! i) = ''deleted''"
  shows "status (codes (fst (cleanup_deleted_codes t current_codes_data w)) ! i) = ''deleted''
    \<and> status (codes (fst (fast_cleanup_deleted_codes t fienta_codes w)) ! i) = ''deleted''
    \<and> status (codes (fst (update_codes_metadata t metadata_captured w)) ! i) = ''deleted''
    \<and> (code (codes w ! i) \<notin> sc_code ` set codes_data \<longrightarrow>
          codes (fst (sync_codes_to_supabase t ev codes_data w)) ! i = codes w ! i)
    \<and> (code (codes w ! i) \<in> sc_code ` set codes_data \<longrightarrow>
          status (codes (fst (sync_codes_to_supabase t ev codes_data w)) ! i)
            \<in> {''active'', ''used''})"
proof -
  have "map status (codes (fst (update_codes_metadata t metadata_captured w))) ! i
        = map status (codes w) ! i"
    by (simp only: update_codes_metadata_status)
  moreover have "length (codes (fst (update_codes_metadata t metadata_captured w)))
        = length (codes w)"
    using update_codes_metadata_status[of t metadata_captured w] by (metis length_map)
  ultimately have meta:
    "status (codes (fst (update_codes_metadata t metadata_captured w)) ! i) = ''deleted''"
    using assms by simp
  show ?thesis
    using assms meta
    by (simp add: cleanup_deleted_codes_def fast_cleanup_deleted_codes_def
        cleanup_loop_keeps_deleted fast_cleanup_loop_keeps_deleted sync_other
        sync_overwrites_present del: insert_iff)
qed

theorem deleted_rows_and_monitor_writes_witness:
  "3 < length (codes ex_store) \<and> status (codes ex_store ! 3) = ''deleted''
   \<and> status (codes (fst (cleanup_deleted_codes ''t1'' [] ex_store)) ! 3) = ''deleted''
   \<and> code (codes ex_store ! 3) \<notin> sc_code ` set [mk_scraped ''C'' 0 1]
   \<and> codes (fst (sync_codes_to_supabase ''t1'' ''118714'' [mk_scraped ''C'' 0 1] ex_store)) ! 3
        = codes ex_store ! 3
   \<and> code (codes ex_store ! 3) \<in> sc_code ` set [mk_scraped ''D'' 1 1]
   \<and> status (codes (fst (sync_codes_to_supabase ''t1'' ''118714'' [mk_scraped ''D'' 1 1]
         ex_store)) ! 3) \<in> {''active'', ''used''}"
proof -
  have h1: "3 < length (codes ex_store)" by (simp add: ex_defs)
  have h2: "status (codes ex_store ! 3) = ''deleted''" by (simp add: ex_defs)
  have h3: "code (codes ex_store ! 3) \<notin> sc_code ` set [mk_scraped ''C'' 0 1]"
    by (simp add: ex_defs)
  have h4: "code (codes ex_store ! 3) \<in> sc_code ` set [mk_scraped ''D'' 1 1]"
    by (simp add: ex_defs)
  from deleted_rows_and_monitor_writes[OF h1 h2, of "''t1''" "[]" "[]" "[]"
      "[mk_scraped ''C'' 0 1]" "''118714''"] h3
  have a: "status (codes (fst (cleanup_deleted_codes ''t1'' [] ex_store)) ! 3) = ''deleted''
     \<and> codes (fst (sync_codes_to_supabase ''t1'' ''118714'' [mk_scraped ''C'' 0 1] ex_store)) ! 3
        = codes ex_store ! 3"
    by blast
  from deleted_rows_and_monitor_writes[OF h1 h2, of "''t1''" "[]" "[]" "[]"
      "[mk_scraped ''D'' 1 1]" "''118714''"] h4
  have b: "status (codes (fst (sync_codes_to_supabase ''t1'' ''118714'' [mk_scraped ''D'' 1 1]
         ex_store)) ! 3) \<in> {''active'', ''used''}"
    by blast
  from h1 h2 h3 h4 a b show ?thesis by blast
qed

text \<open>
  C2 as stated fails: code D is deleted locally and appears in the scrape with no use
  against a limit of one; the code sync of a full cycle sets the row back to active.
\<close>

theorem sync_resurrects_deleted_counterexample:
  "status (codes ex_store ! 3) = ''deleted''
   \<and> status (codes (fst (sync_codes_to_supabase ''t1'' ''118714'' [mk_scraped ''D'' 0 1]
         ex_store)) ! 3) = ''active''"
  by (simp add: ex_defs sync_one_def select_code_def update_code_def sync_status_def
      get_int_def Let_def)

section \<open>Action processor: single rows\<close>

lemmas handler_defs = process_single_code_action_def handle_code_deletion_def
  handle_code_creation_def handle_code_update_def handle_code_rename_def
  resolve_for_deletion_def resolve_fienta_code_identifiers_def
  run_fienta_operation_def delete_code_in_fienta_def mark_action_failed_def
  update_code_def select_code_def insert_code_def delete_code_def

lemmas dict_defs = dget_def dget_default_def dict_merge_def has_key_def dset_def dpop_def

text \<open>Whatever handler raised, the dispatcher's exception branch leaves the rows of that
  code with the status of the fetched record, which for a selected row is the pending
  status itself.\<close>

lemma raised_row_keeps_fetched_status:
  assumes "process_single_code_action e r w = Raised err w'" and "x \<in> set (codes w')"
    and "code x = code r"
  shows "status x = status r"
proof -
  from assms(1) obtain w1 where w': "w' = mark_action_failed e (code r) err (status r) w1"
    by (auto simp: process_single_code_action_def Let_def split: outcome.splits)
  from assms(2) obtain y where "y \<in> set (codes w1)"
    "x = (if code y = code r
          then y\<lparr>status := status r, updated_at := now e,
                 metadata := dict_merge
                   (case select_code (code r) w1 of [] \<Rightarrow> [] | r0 # _ \<Rightarrow> metadata r0)
                   [(''action_failed'', JBool True), (''action_error'', JStr err),
                    (''failed_at'', JStr (now e))]\<rparr>
          else y)"
    unfolding w' by (auto simp: mark_action_failed_def update_code_def Let_def)
  with assms(3) show ?thesis by (auto split: if_splits)
qed

text \<open>
  C3 (failure-revert rule), evaluated on the code. Code X is in status deleting with its
  external identifiers recorded and previous status used; the deletion script fails. The
  deletion handler writes status active and raises; the dispatcher's exception handler
  then marks the row failed again with the status it was picked up with, so the row ends
  in status deleting.
\<close>

theorem failed_delete_ends_deleting:
  "process_single_code_action ex_env fail_delete_row fail_delete_store =
     Raised ''Failed to delete code from Fienta''
       (fail_delete_store
          \<lparr>codes := [fail_delete_row
              \<lparr>status := ''deleting'', updated_at := ''t1'',
               metadata := metadata fail_delete_row @
                 [(''action_failed'', JBool True),
                  (''action_error'', JStr ''Failed to delete code from Fienta''),
                  (''failed_at'', JStr ''t1'')]\<rparr>],
           gateway_calls := [(''delete-code'', ''X'')],
           log_files := [''fienta_delete_X_ts.log''],
           store_writes := 2\<rparr>)"
  by (simp add: handler_defs dict_defs ex_defs fail_delete_row_def fail_delete_store_def
      delete_log_name_def safe_code_def Let_def)

text \<open>
  C4 (delete-race abort). When the re-read of the row finds a status other than
  deleting, the deletion handler returns with the world exactly as it was: no gateway
  invocation, no store write, no log file.
\<close>

theorem delete_race_aborts:
  assumes "select_code (code code_record) w = r # rs" and "status r \<noteq> ''deleting''"
  shows "handle_code_deletion e code_record w = Returned () w"
  using assms by (simp add: handle_code_deletion_def Let_def)

theorem delete_race_aborts_witness:
  "select_code (code fail_delete_row) stale_delete_store
     = [mk_code ''X'' ''active'' [(''action'', JStr ''delete'')]]
   \<and> status (mk_code ''X'' ''active'' [(''action'', JStr ''delete'')]) \<noteq> ''deleting''
   \<and> handle_code_deletion ex_env fail_delete_row stale_delete_store
       = Returned () stale_delete_store
   \<and> gateway_calls stale_delete_store = [] \<and> store_writes stale_delete_store = 0"
proof -
  have h1: "select_code (code fail_delete_row) stale_delete_store
     = mk_code ''X'' ''active'' [(''action'', JStr ''delete'')] # []"
    by (simp add: select_code_def stale_delete_store_def fail_delete_row_def ex_defs)
  have h2: "status (mk_code ''X'' ''active'' [(''action'', JStr ''delete'')]) \<noteq> ''deleting''"
    by (simp add: ex_defs)
  have h3: "gateway_calls stale_delete_store = [] \<and> store_writes stale_delete_store = 0"
    by (simp add: stale_delete_store_def ex_defs)
  from h1 h2 h3 delete_race_aborts[OF h1 h2, of ex_env] show ?thesis by simp
qed

lemma run_stubbed:
  "operation \<in> set [''create-code'', ''update-code'', ''rename-code''] \<Longrightarrow>
   run_fienta_operation e operation params w = (True, w)"
  by (auto simp: run_fienta_operation_def)

lemma creation_returns:
  "\<exists>w'. handle_code_creation e r w = Returned () w'
     \<and> gateway_calls w' = gateway_calls w
     \<and> map code (codes w') = map code (codes w)
     \<and> map status (codes w')
         = map (\<lambda>x. if code x = code r then ''active'' else status x) (codes w)"
  by (simp add: handle_code_creation_def run_fienta_operation_def update_code_def Let_def
      comp_def)

lemma dispatch_creating:
  "status r = ''creating'' \<Longrightarrow>
   process_single_code_action e r w = handle_code_creation e r w"
  using creation_returns[of e r w]
  by (auto simp: process_single_code_action_def Let_def)

lemma update_returns:
  "update_params (metadata r) \<noteq> [] \<Longrightarrow>
   \<exists>w'. handle_code_update e r w = Returned () w'
     \<and> gateway_calls w' = gateway_calls w
     \<and> map code (codes w') = map code (codes w)
     \<and> map status (codes w')
         = map (\<lambda>x. if code x = code r then ''active'' else status x) (codes w)"
  by (simp add: handle_code_update_def run_fienta_operation_def update_code_def Let_def
      comp_def)

lemma rename_returns:
  "truthy (dget (metadata r) ''new_code'') \<Longrightarrow>
   \<exists>w' row. handle_code_rename e r w = Returned () w'
     \<and> gateway_calls w' = gateway_calls w
     \<and> codes w' = filter (\<lambda>x. code x \<noteq> code r) (codes w) @ [row]
     \<and> code row = as_text (dget (metadata r) ''new_code'')
     \<and> status row = ''active''"
  by (simp add: handle_code_rename_def run_fienta_operation_def insert_code_def
      delete_code_def Let_def)

text \<open>
  C10 (operations without automation). The gateway dispatcher answers create-code,
  update-code and rename-code with success and leaves the world as it is (no subprocess
  is started). Hence the creation handler always returns with every row of that code
  active, a row in status creating is always dispatched to it, the update handler returns
  with the rows of that code active whenever a staged field is present, and the rename
  handler returns with the old rows removed and an active row under the new code
  whenever a new code is present.
\<close>

theorem stubbed_operations_take_success_branch:
  "(operation \<in> set [''create-code'', ''update-code'', ''rename-code''] \<longrightarrow>
      run_fienta_operation e operation params w = (True, w))
   \<and> (\<exists>w'. handle_code_creation e rc w = Returned () w'
         \<and> gateway_calls w' = gateway_calls w
         \<and> map code (codes w') = map code (codes w)
         \<and> map status (codes w')
             = map (\<lambda>x. if code x = code rc then ''active'' else status x) (codes w))
   \<and> (status rc = ''creating'' \<longrightarrow>
         process_single_code_action e rc w = handle_code_creation e rc w)
   \<and> (update_params (metadata ru) \<noteq> [] \<longrightarrow>
        (\<exists>w'. handle_code_update e ru w = Returned () w'
         \<and> gateway_calls w' = gateway_calls w
         \<and> map code (codes w') = map code (codes w)
         \<and> map status (codes w')
             = map (\<lambda>x. if code x = code ru then ''active'' else status x) (codes w)))
   \<and> (truthy (dget (metadata rn) ''new_code'') \<longrightarrow>
        (\<exists>w' row. handle_code_rename e rn w = Returned () w'
         \<and> gateway_calls w' = gateway_calls w
         \<and> codes w' = filter (\<lambda>x. code x \<noteq> code rn) (codes w) @ [row]
         \<and> code row = as_text (dget (metadata rn) ''new_code'')
         \<and> status row = ''active''))"
  using run_stubbed[of operation e params w] creation_returns[of e rc w]
    dispatch_creating[of rc e w] update_returns[of ru e w] rename_returns[of rn e w]
  by blast

theorem stubbed_operations_take_success_branch_witness:
  "''create-code'' \<in> set [''create-code'', ''update-code'', ''rename-code'']
   \<and> status creating_row = ''creating''
   \<and> update_params (metadata updating_row) \<noteq> []
   \<and> truthy (dget (metadata renaming_row) ''new_code'')
   \<and> run_fienta_operation ex_env ''create-code''
        \<lparr>p_code = ''SPRING10'', p_fienta_discount_id = JNull, p_fienta_edit_url = JNull\<rparr>
        intents_store = (True, intents_store)
   \<and> process_single_code_action ex_env creating_row intents_store
        = handle_code_creation ex_env creating_row intents_store
   \<and> (\<exists>w'. handle_code_creation ex_env creating_row intents_store = Returned () w'
         \<and> map status (codes w') = [''active'', ''updating'', ''renaming''])
   \<and> (\<exists>w'. handle_code_update ex_env updating_row intents_store = Returned () w'
         \<and> map status (codes w') = [''creating'', ''active'', ''renaming''])
   \<and> (\<exists>w'. handle_code_rename ex_env renaming_row intents_store = Returned () w'
         \<and> map code (codes w') = [''SPRING10'', ''U1'', ''NEW'']
         \<and> map status (codes w') = [''creating'', ''updating'', ''active''])"
proof -
  have h1: "''create-code'' \<in> set [''create-code'', ''update-code'', ''rename-code'']"
    by simp
  have h2: "status creating_row = ''creating''" by (simp add: creating_row_def ex_defs)
  have h3: "update_params (metadata updating_row) \<noteq> []"
    by (simp add: updating_row_def ex_defs update_params_def update_fields_def has_key_def)
  have h4: "truthy (dget (metadata renaming_row) ''new_code'')"
    by (simp add: renaming_row_def ex_defs dget_def)
  have c: "map code (codes intents_store) = [''SPRING10'', ''U1'', ''OLD'']"
    "map status (codes intents_store) = [''creating'', ''updating'', ''renaming'']"
    "code creating_row = ''SPRING10''" "code updating_row = ''U1''"
    "code renaming_row = ''OLD''"
    "as_text (dget (metadata renaming_row) ''new_code'') = ''NEW''"
    by (simp_all add: intents_store_def creating_row_def updating_row_def renaming_row_def
        ex_defs dget_def)
  have s: "map (\<lambda>x. if code x = ''SPRING10'' then ''active'' else status x)
             (codes intents_store) = [''active'', ''updating'', ''renaming'']"
    "map (\<lambda>x. if code x = ''U1'' then ''active'' else status x)
             (codes intents_store) = [''creating'', ''active'', ''renaming'']"
    "map code (filter (\<lambda>x. code x \<noteq> ''OLD'') (codes intents_store)) = [''SPRING10'', ''U1'']"
    "map status (filter (\<lambda>x. code x \<noteq> ''OLD'') (codes intents_store))
       = [''creating'', ''updating'']"
    by (simp_all add: intents_store_def creating_row_def updating_row_def renaming_row_def
        ex_defs)
  from stubbed_operations_take_success_branch[of "''create-code''" ex_env
      "\<lparr>p_code = ''SPRING10'', p_fienta_discount_id = JNull, p_fienta_edit_url = JNull\<rparr>"
      intents_store creating_row updating_row renaming_row] h1 h2 h3 h4
  show ?thesis
    unfolding c s by (auto simp: s)
qed

lemma resolve_None_world:
  "fst (resolve_fienta_code_identifiers e c w) = None \<Longrightarrow>
   snd (resolve_fienta_code_identifiers e c w)
     = w\<lparr>gateway_calls := gateway_calls w @ [(''scrape-code-details'', c)]\<rparr>"
  by (auto simp: resolve_fienta_code_identifiers_def Let_def
      split: option.splits list.splits if_splits)

lemma resolve_for_deletion_unresolved:
  assumes "\<not> truthy (dget (metadata r) ''fienta_discount_id'')"
    and "fst (resolve_fienta_code_identifiers e (code r) w) = None"
  shows "resolve_for_deletion e r w =
     (dget (metadata r) ''fienta_discount_id'', dget (metadata r) ''fienta_edit_url'',
      w\<lparr>gateway_calls := gateway_calls w @ [(''scrape-code-details'', code r)]\<rparr>)"
proof -
  from assms(2) resolve_None_world[OF assms(2)]
  have "resolve_fienta_code_identifiers e (code r) w =
      (None, w\<lparr>gateway_calls := gateway_calls w @ [(''scrape-code-details'', code r)]\<rparr>)"
    by (metis prod.collapse)
  with assms(1) show ?thesis
    by (simp add: resolve_for_deletion_def Let_def)
qed

lemma mark_action_failed_nth:
  assumes "select_code c w = [r]" "i < length (codes w)" "codes w ! i = r"
  shows "codes (mark_action_failed e c err st w) ! i =
     r\<lparr>status := st, updated_at := now e,
       metadata := dict_merge (metadata r)
         [(''action_failed'', JBool True), (''action_error'', JStr err),
          (''failed_at'', JStr (now e))]\<rparr>"
proof -
  from assms(1) have "r \<in> set (select_code c w)" by simp
  then have "code r = c" by (simp add: select_code_def)
  with assms show ?thesis
    by (simp add: mark_action_failed_def Let_def update_code_nth)
qed

lemma mark_action_failed_frame:
  "length (codes (mark_action_failed e c err st w)) = length (codes w)"
  "gateway_calls (mark_action_failed e c err st w) = gateway_calls w"
  "log_files (mark_action_failed e c err st w) = log_files w"
  by (simp_all add: mark_action_failed_def update_code_def Let_def)

lemma dget_failed_metadata:
  "dget (dict_merge md [(''action_failed'', JBool True), (''action_error'', JStr err),
          (''failed_at'', JStr t)]) ''action_failed'' = JBool True"
  "dget (dict_merge md [(''action_failed'', JBool True), (''action_error'', JStr err),
          (''failed_at'', JStr t)]) ''action_error'' = JStr err"
  by (simp_all add: dict_merge_def dget_def update_conv')

lemma unresolved_deletion:
  assumes "distinct (map code (codes w))" and "i < length (codes w)"
    and "status (codes w ! i) = ''deleting''"
    and "\<not> truthy (dget (metadata (codes w ! i)) ''fienta_discount_id'')"
    and "fst (resolve_fienta_code_identifiers e (code (codes w ! i)) w) = None"
  shows "handle_code_deletion e (codes w ! i) w =
     Returned ()
       ((mark_action_failed e (code (codes w ! i))
           ''Missing fienta_discount_id; cannot delete in Fienta''
           (as_text (dget_default (metadata (codes w ! i)) ''previous_status''
                       (JStr (status (codes w ! i)))))
           (w\<lparr>gateway_calls := gateway_calls w
                @ [(''scrape-code-details'', code (codes w ! i))]\<rparr>))
        \<lparr>log_files := log_files w @ [delete_log_name e (code (codes w ! i))]\<rparr>)"
proof -
  have sel: "select_code (code (codes w ! i)) w = [codes w ! i]"
    using assms(1,2) by (rule select_code_distinct)
  show ?thesis
    using assms(3,4)
    by (simp add: handle_code_deletion_def Let_def sel
        resolve_for_deletion_unresolved[OF assms(4,5)] mark_action_failed_frame)
qed

text \<open>
  C6 (unresolved delete). A row of the table in status deleting (codes being unique, and
  its metadata not naming the create action) whose metadata has no usable
  \<open>fienta_discount_id\<close> and whose identifier resolution yields nothing: processing returns
  without raising, the gateway log gains no delete-code invocation, the row carries
  \<open>action_failed = True\<close> and an \<open>action_error\<close>, its status is the recorded
  \<open>previous_status\<close>, or the status it had when none is recorded, and one failure log
  file is written.
\<close>

theorem unresolved_delete_is_marked_failed:
  assumes "distinct (map code (codes w))" and "i < length (codes w)"
    and "status (codes w ! i) = ''deleting''"
    and "dget (metadata (codes w ! i)) ''action'' \<noteq> JStr ''create''"
    and "\<not> truthy (dget (metadata (codes w ! i)) ''fienta_discount_id'')"
    and "fst (resolve_fienta_code_identifiers e (code (codes w ! i)) w) = None"
  shows "returned (process_single_code_action e (codes w ! i) w)
    \<and> delete_calls (world_of (process_single_code_action e (codes w ! i) w)) = delete_calls w
    \<and> log_files (world_of (process_single_code_action e (codes w ! i) w))
        = log_files w @ [delete_log_name e (code (codes w ! i))]
    \<and> length (codes (world_of (process_single_code_action e (codes w ! i) w)))
        = length (codes w)
    \<and> code (codes (world_of (process_single_code_action e (codes w ! i) w)) ! i)
        = code (codes w ! i)
    \<and> dget (metadata (codes (world_of (process_single_code_action e (codes w ! i) w)) ! i))
         ''action_failed'' = JBool True
    \<and> dget (metadata (codes (world_of (process_single_code_action e (codes w ! i) w)) ! i))
         ''action_error'' = JStr ''Missing fienta_discount_id; cannot delete in Fienta''
    \<and> status (codes (world_of (process_single_code_action e (codes w ! i) w)) ! i)
        = (case map_of (metadata (codes w ! i)) ''previous_status'' of
             None \<Rightarrow> status (codes w ! i) | Some v \<Rightarrow> as_text v)"
proof -
  let ?r = "codes w ! i"
  let ?w1 = "w\<lparr>gateway_calls := gateway_calls w @ [(''scrape-code-details'', code ?r)]\<rparr>"
  let ?st = "as_text (dget_default (metadata ?r) ''previous_status'' (JStr (status ?r)))"
  let ?w2 = "mark_action_failed e (code ?r)
           ''Missing fienta_discount_id; cannot delete in Fienta'' ?st ?w1"
  have sel: "select_code (code ?r) ?w1 = [?r]"
    using select_code_distinct[OF assms(1,2)] by (simp add: select_code_def)
  have row: "codes ?w2 ! i = ?r\<lparr>status := ?st, updated_at := now e,
       metadata := dict_merge (metadata ?r)
         [(''action_failed'', JBool True),
          (''action_error'', JStr ''Missing fienta_discount_id; cannot delete in Fienta''),
          (''failed_at'', JStr (now e))]\<rparr>"
    using sel assms(2) by (intro mark_action_failed_nth) simp_all
  have run: "process_single_code_action e ?r w =
      Returned () (?w2\<lparr>log_files := log_files w @ [delete_log_name e (code ?r)]\<rparr>)"
    using assms(3,4) unresolved_deletion[OF assms(1,2,3,5,6)]
    by (simp add: process_single_code_action_def Let_def)
  have st: "?st = (case map_of (metadata ?r) ''previous_status'' of
             None \<Rightarrow> status ?r | Some v \<Rightarrow> as_text v)"
    by (simp add: dget_default_def split: option.splits)
  have f: "status (codes ?w2 ! i) = ?st" "code (codes ?w2 ! i) = code ?r"
    "dget (metadata (codes ?w2 ! i)) ''action_failed'' = JBool True"
    "dget (metadata (codes ?w2 ! i)) ''action_error''
       = JStr ''Missing fienta_discount_id; cannot delete in Fienta''"
    by (simp_all add: row dget_failed_metadata)
  have g: "length (codes ?w2) = length (codes w)" "gateway_calls ?w2 = gateway_calls ?w1"
    by (simp_all add: mark_action_failed_frame)
  show ?thesis
    unfolding run using f g st
    by (simp add: delete_calls_def)
qed

theorem unresolved_delete_is_marked_failed_witness:
  "distinct (map code (codes unresolved_store)) \<and> 1 < length (codes unresolved_store)
   \<and> status (codes unresolved_store ! 1) = ''deleting''
   \<and> dget (metadata (codes unresolved_store ! 1)) ''action'' \<noteq> JStr ''create''
   \<and> \<not> truthy (dget (metadata (codes unresolved_store ! 1)) ''fienta_discount_id'')
   \<and> fst (resolve_fienta_code_identifiers ex_env (code (codes unresolved_store ! 1))
        unresolved_store) = None
   \<and> returned (process_single_code_action ex_env (codes unresolved_store ! 1) unresolved_store)
   \<and> delete_calls (world_of (process_single_code_action ex_env (codes unresolved_store ! 1)
        unresolved_store)) = []
   \<and> status (codes (world_of (process_single_code_action ex_env (codes unresolved_store ! 1)
        unresolved_store)) ! 1) = ''active''
   \<and> dget (metadata (codes (world_of (process_single_code_action ex_env
        (codes unresolved_store ! 1) unresolved_store)) ! 1)) ''action_failed'' = JBool True"
proof -
  have h1: "distinct (map code (codes unresolved_store))"
    by (simp add: unresolved_store_def unresolved_row_def ex_defs)
  have h2: "1 < length (codes unresolved_store)"
    by (simp add: unresolved_store_def ex_defs)
  have h3: "status (codes unresolved_store ! 1) = ''deleting''"
    by (simp add: unresolved_store_def unresolved_row_def ex_defs)
  have h4: "dget (metadata (codes unresolved_store ! 1)) ''action'' \<noteq> JStr ''create''"
    by (simp add: unresolved_store_def unresolved_row_def ex_defs dget_def)
  have h5: "\<not> truthy (dget (metadata (codes unresolved_store ! 1)) ''fienta_discount_id'')"
    by (simp add: unresolved_store_def unresolved_row_def ex_defs dget_def)
  have h6: "fst (resolve_fienta_code_identifiers ex_env (code (codes unresolved_store ! 1))
        unresolved_store) = None"
    by (simp add: unresolved_store_def unresolved_row_def ex_defs dget_def
        resolve_fienta_code_identifiers_def select_code_def Let_def)
  have k: "delete_calls unresolved_store = []"
    "map_of (metadata (codes unresolved_store ! 1)) ''previous_status'' = Some (JStr ''active'')"
    by (simp_all add: unresolved_store_def unresolved_row_def ex_defs delete_calls_def)
  from unresolved_delete_is_marked_failed[OF h1 h2 h3 h4 h5 h6] h1 h2 h3 h4 h5 h6 k
  show ?thesis by simp
qed







section \<open>Action processor: a pass and its repetition\<close>


lemma not_pending_simps:
  "\<not> is_pending (r\<lparr>status := ''active''\<rparr>)" "\<not> is_pending (r\<lparr>status := ''deleted''\<rparr>)"
  by (simp_all add: is_pending_def pending_statuses_def)









lemma code_loop_empty: "code_actions_loop e [] w n = (w, n)"
  by simp
















section \<open>Action processor: containment of failures\<close>











end
